theory Spec2Isabelle
  imports Main
begin

section \<open>Values, messages, errors\<close>

text \<open>
  The metadata values of a GRIB message, as \<^verbatim>\<open>dataset.py\<close> handles them: Python's
  \<^verbatim>\<open>None\<close>, integers and strings. The module only compares them with \<^verbatim>\<open>None\<close>,
  looks them up in a dictionary keyed by strings, and formats them; floating-point
  values would go through the same code paths and are left out of the value type.
\<close>

datatype scalar = PyNone | PyInt int | PyStr string

text \<open>
  A message is a mapping from key names to values (\<^verbatim>\<open>T.Mapping[str, T.Any]\<close>), kept as an
  association list; a key bound to \<^verbatim>\<open>None\<close> is different from a key that is not bound.
\<close>

type_synonym message = "(string \<times> scalar) list"

text \<open>The exceptions the module raises, or lets escape from a lookup.\<close>

datatype error =
    KeyError string
  | IndexError
  | StopIteration
  | TypeError_unexpected_keyword string
  | TypeError_missing_argument string
  | NotImplementedError_multiple_values string "scalar list"
  | NotImplementedError_only_one_variable

text \<open>\<^verbatim>\<open>message.get(key, default)\<close> and \<^verbatim>\<open>message[key]\<close>.\<close>

definition message_get :: "message \<Rightarrow> string \<Rightarrow> scalar \<Rightarrow> scalar" where
  "message_get message key dflt = (case map_of message key of None \<Rightarrow> dflt | Some v \<Rightarrow> v)"

definition message_getitem :: "message \<Rightarrow> string \<Rightarrow> error + scalar" where
  "message_getitem message key =
     (case map_of message key of None \<Rightarrow> Inl (KeyError key) | Some v \<Rightarrow> Inr v)"

text \<open>
  A Python \<^verbatim>\<open>dict\<close> filled by assignment: an association list in insertion order, where
  assigning to a key that is already there replaces the value in place.
\<close>

type_synonym ('k, 'v) dict = "('k \<times> 'v) list"

fun dict_set :: "('k, 'v) dict \<Rightarrow> 'k \<Rightarrow> 'v \<Rightarrow> ('k, 'v) dict" where
  "dict_set [] k v = [(k, v)]"
| "dict_set ((k', v') # d) k v =
     (if k' = k then (k', v) # d else (k', v') # dict_set d k v)"

text \<open>
  A record handed to the logger: \<^verbatim>\<open>log.warning(fmt, arg)\<close> keeps the format string and
  its argument apart.
\<close>

type_synonym log_record = "string \<times> scalar"

section \<open>Key catalogs\<close>

definition PARAMETER_KEYS :: "string list" where
  "PARAMETER_KEYS = [''centre'', ''paramId'', ''shortName'', ''units'', ''name'']"

definition TIME_KEYS :: "string list" where
  "TIME_KEYS =
     [''dataDate'', ''endStep'', ''startStep'', ''stepRange'', ''stepUnits'', ''dataTime'',
      ''validityDate'', ''validityTime'', ''stepType'']"

definition GEOGRAPHY_KEYS :: "string list" where
  "GEOGRAPHY_KEYS = [''gridType'']"

definition VERTICAL_KEYS :: "string list" where
  "VERTICAL_KEYS = [''bottomLevel'', ''level'', ''pv'', ''topLevel'', ''typeOfLevel'']"

definition NAMESPACE_KEYS :: "string list" where
  "NAMESPACE_KEYS = PARAMETER_KEYS @ TIME_KEYS @ GEOGRAPHY_KEYS @ VERTICAL_KEYS"

text \<open>The grid-type catalog is a dictionary from grid type to key names.\<close>

type_synonym grid_type_map = "string \<rightharpoonup> string list"

definition GRID_TYPE_MAP :: grid_type_map where
  "GRID_TYPE_MAP = map_of
     [(''regular_ll'',
        [''Ni'', ''Nj'', ''iDirectionIncrementInDegrees'', ''iScansNegatively'',
         ''jDirectionIncrementInDegrees'', ''jPointsAreConsecutive'', ''jScansPositively'',
         ''latitudeOfFirstGridPointInDegrees'', ''latitudeOfLastGridPointInDegrees'',
         ''longitudeOfFirstGridPointInDegrees'', ''longitudeOfLastGridPointInDegrees'']),
      (''regular_gg'',
        [''Ni'', ''Nj'', ''iDirectionIncrementInDegrees'', ''iScansNegatively'',
         ''N'', ''jPointsAreConsecutive'', ''jScansPositively'',
         ''latitudeOfFirstGridPointInDegrees'', ''latitudeOfLastGridPointInDegrees'',
         ''longitudeOfFirstGridPointInDegrees'', ''longitudeOfLastGridPointInDegrees''])]"

definition DATA_KEYS :: "string list" where
  "DATA_KEYS = [''numberOfDataPoints'', ''packingType'']"

definition ENSEMBLE_KEYS :: "string list" where
  "ENSEMBLE_KEYS = [''number'']"

definition EDITION_INDEPENDENT_KEYS :: "string list" where
  "EDITION_INDEPENDENT_KEYS = NAMESPACE_KEYS @ DATA_KEYS @ ENSEMBLE_KEYS"

definition VARIABLE_ATTRS_KEYS :: "string list" where
  "VARIABLE_ATTRS_KEYS =
     [''centre'', ''paramId'', ''shortName'', ''units'', ''name'',
      ''stepUnits'', ''stepType'',
      ''typeOfLevel'',
      ''gridType'',
      ''numberOfDataPoints'']"

definition RAW_COORDINATES_KEYS :: "string list" where
  "RAW_COORDINATES_KEYS = [''number'', ''dataDate'', ''dataTime'', ''endStep'', ''topLevel'']"

text \<open>
  Looking a value up in the catalog: \<^verbatim>\<open>grid_type in grid_type_map\<close> with
  \<^verbatim>\<open>grid_type_map[grid_type]\<close>, and \<^verbatim>\<open>grid_type_map.get(grid_type, [])\<close>. The keys of
  the catalog are strings, so \<^verbatim>\<open>None\<close> or an integer is never among them.
\<close>

definition catalog_lookup :: "grid_type_map \<Rightarrow> scalar \<Rightarrow> string list option" where
  "catalog_lookup grid_type_map grid_type =
     (case grid_type of PyStr g \<Rightarrow> grid_type_map g | _ \<Rightarrow> None)"

section \<open>The significance sniffer\<close>

text \<open>
  \<^verbatim>\<open>sniff_significant_keys\<close>: the result is the list of keys together with the records
  passed to \<^verbatim>\<open>log.warning\<close>.
\<close>

definition sniff_significant_keys ::
  "message \<Rightarrow> string list \<Rightarrow> grid_type_map \<Rightarrow> string list \<times> log_record list" where
  "sniff_significant_keys message ei_keys grid_type_map =
     (let grid_type = message_get message ''gridType'' PyNone;
          (grid_type_keys, logged) =
            (case catalog_lookup grid_type_map grid_type of
               Some keys \<Rightarrow> (keys, [])
             | None \<Rightarrow> ([], [(''unknown gridType %r'', grid_type)]));
          all_significant_keys = ei_keys @ grid_type_keys
      in (filter (\<lambda>key. message_get message key PyNone \<noteq> PyNone) all_significant_keys,
          logged))"

section \<open>The attribute sniffer\<close>

text \<open>
  The index argument of the sniffers is a mapping from key names to value sequences
  (\<^verbatim>\<open>T.Mapping[str, T.Any]\<close>): \<^verbatim>\<open>index[key]\<close> raises \<^verbatim>\<open>KeyError\<close> for a key that is not
  bound, \<^verbatim>\<open>index.get(key, default)\<close> gives the default there.
\<close>

type_synonym index_map = "string \<rightharpoonup> scalar list"

text \<open>\<^verbatim>\<open>significant_index.get('gridType', [None])[0]\<close>\<close>

definition index_grid_type :: "index_map \<Rightarrow> error + scalar" where
  "index_grid_type significant_index =
     (case significant_index ''gridType'' of
        None \<Rightarrow> Inr PyNone
      | Some [] \<Rightarrow> Inl IndexError
      | Some (v # _) \<Rightarrow> Inr v)"

text \<open>The body of the loop of \<^verbatim>\<open>sniff_variable_attrs\<close>, over the keys that are left.\<close>

fun attrs_loop :: "index_map \<Rightarrow> string list \<Rightarrow> (string, scalar) dict \<Rightarrow> error + (string, scalar) dict" where
  "attrs_loop significant_index [] attrs = Inr attrs"
| "attrs_loop significant_index (key # keys) attrs =
     (case significant_index key of
        None \<Rightarrow> Inl (KeyError key)
      | Some value \<Rightarrow>
          if length value > 1 then Inl (NotImplementedError_multiple_values key value)
          else (case value of
                  [] \<Rightarrow> Inl IndexError
                | v # _ \<Rightarrow> attrs_loop significant_index keys (dict_set attrs key v)))"

text \<open>The keys the loop runs over: \<^verbatim>\<open>chain(attrs_keys, grid_type_map.get(grid_type, []))\<close>.\<close>

definition tracked_keys :: "string list \<Rightarrow> grid_type_map \<Rightarrow> scalar \<Rightarrow> string list" where
  "tracked_keys attrs_keys grid_type_map grid_type =
     attrs_keys @ (case catalog_lookup grid_type_map grid_type of None \<Rightarrow> [] | Some keys \<Rightarrow> keys)"

definition sniff_variable_attrs ::
  "index_map \<Rightarrow> string list \<Rightarrow> grid_type_map \<Rightarrow> error + (string, scalar) dict" where
  "sniff_variable_attrs significant_index attrs_keys grid_type_map =
     (case index_grid_type significant_index of
        Inl e \<Rightarrow> Inl e
      | Inr grid_type \<Rightarrow>
          attrs_loop significant_index (tracked_keys attrs_keys grid_type_map grid_type) [])"

section \<open>The coordinate sniffer\<close>

fun raw_coordinates_loop ::
  "index_map \<Rightarrow> string list \<Rightarrow> (string, scalar list) dict \<Rightarrow> error + (string, scalar list) dict" where
  "raw_coordinates_loop significant_index [] raw_coordinates = Inr raw_coordinates"
| "raw_coordinates_loop significant_index (key # keys) raw_coordinates =
     (case significant_index key of
        None \<Rightarrow> Inl (KeyError key)
      | Some value \<Rightarrow>
          raw_coordinates_loop significant_index keys (dict_set raw_coordinates key value))"

definition sniff_raw_coordinates ::
  "index_map \<Rightarrow> string list \<Rightarrow> grid_type_map \<Rightarrow> error + (string, scalar list) dict" where
  "sniff_raw_coordinates significant_index raw_coordinates_keys grid_type_map =
     raw_coordinates_loop significant_index raw_coordinates_keys []"

section \<open>The message stream and its indices\<close>

text \<open>
  Modelled from the spec: the module \<^verbatim>\<open>messages\<close> (\<^verbatim>\<open>Stream\<close>, \<^verbatim>\<open>Index\<close>) is not among the
  sources. The spec describes a stream as opened from a path, and a metadata index as
  mapping each tracked key to the ordered, deduplicated sequence of the distinct values
  observed across the message collection, with a selection that yields the messages
  matching a key = value constraint in index order. Both \<^verbatim>\<open>stream.index(keys)\<close> and
  \<^verbatim>\<open>messages.Index(path, keys)\<close> scan the file at the path, so the files are a parameter:
  the messages each path holds.
\<close>

type_synonym files = "string \<Rightarrow> message list"

record stream =
  stream_path :: string
  stream_mode :: string

record index =
  index_keys :: "string list"
  index_messages :: "message list"

text \<open>
  Modelled from the spec: \<^verbatim>\<open>messages.Stream(path, mode)\<close> opens the stream of a path,
  \<^verbatim>\<open>messages.Index(path, keys)\<close> and \<^verbatim>\<open>stream.index(keys)\<close> build an index over the given
  keys by scanning all messages of the file once.
\<close>

definition Stream :: "string \<Rightarrow> string \<Rightarrow> stream" where
  "Stream path mode = \<lparr>stream_path = path, stream_mode = mode\<rparr>"

definition Index :: "files \<Rightarrow> string \<Rightarrow> string list \<Rightarrow> index" where
  "Index files path keys = \<lparr>index_keys = keys, index_messages = files path\<rparr>"

definition stream_index :: "files \<Rightarrow> stream \<Rightarrow> string list \<Rightarrow> index" where
  "stream_index files s keys = Index files (stream_path s) keys"

text \<open>The distinct values of a sequence, each at its first occurrence.\<close>

definition first_seen :: "'a list \<Rightarrow> 'a list" where
  "first_seen vs = rev (remdups (rev vs))"

text \<open>
  Modelled from the spec: the values observed for a key are the non-null values the
  messages bind it to, deduplicated in discovery order.
\<close>

definition index_values :: "index \<Rightarrow> string \<Rightarrow> scalar list" where
  "index_values ix key =
     first_seen (filter (\<lambda>v. v \<noteq> PyNone)
                   (map (\<lambda>m. message_get m key PyNone) (index_messages ix)))"

text \<open>
  Modelled from the spec: the mapping-style lookup of an index binds the tracked keys
  and no other key.
\<close>

definition index_lookup :: "index \<Rightarrow> index_map" where
  "index_lookup ix key =
     (if key \<in> set (index_keys ix) then Some (index_values ix key) else None)"

text \<open>
  Modelled from the spec: \<^verbatim>\<open>len\<close> of an index. The spec reads the guard
  \<^verbatim>\<open>len(self.paramId_index) > 1\<close> as "more than one distinct grouping-key value is
  present", so the length of an index is the number of distinct values it holds for its
  tracked keys; for the coarse index over the grouping key alone this is the number of
  distinct grouping-key values.
\<close>

definition index_len :: "index \<Rightarrow> nat" where
  "index_len ix = sum_list (map (\<lambda>key. length (index_values ix key)) (index_keys ix))"

text \<open>
  Modelled from the spec: \<^verbatim>\<open>index.select(key=value)\<close> yields the messages that bind the
  key to the value, in the order of the collection.
\<close>

definition index_select :: "index \<Rightarrow> string \<Rightarrow> scalar \<Rightarrow> message list" where
  "index_select ix key v = filter (\<lambda>m. map_of m key = Some v) (index_messages ix)"

section \<open>Memoised methods\<close>

text \<open>
  The decorator \<^verbatim>\<open>cached\<close>: the attribute named after the method is read with
  \<open>get_cache\<close> (\<^verbatim>\<open>hasattr\<close>, \<^verbatim>\<open>getattr\<close>) and written with \<open>set_cache\<close>
  (\<^verbatim>\<open>setattr\<close>). A method that raises leaves the attribute unset. The result carries the
  object after the call and the records logged during it.
\<close>

definition cached ::
  "('s \<Rightarrow> 'a option) \<Rightarrow> ('s \<Rightarrow> 'a \<Rightarrow> 's) \<Rightarrow> ('s \<Rightarrow> (error + 'a) \<times> log_record list)
     \<Rightarrow> 's \<Rightarrow> (error + 'a \<times> 's) \<times> log_record list" where
  "cached get_cache set_cache method self =
     (case get_cache self of
        None \<Rightarrow>
          (case method self of
             (Inl e, logged) \<Rightarrow> (Inl e, logged)
           | (Inr v, logged) \<Rightarrow> (Inr (v, set_cache self v), logged))
      | Some v \<Rightarrow> (Inr (v, self), []))"

section \<open>Variable\<close>

text \<open>
  The array \<^verbatim>\<open>np.full(shape, fill_value, dtype)\<close> returns: its shape, its element type and
  its elements in row-major order. An element is the not-a-number sentinel or a number;
  this module only ever stores the sentinel.
\<close>

datatype dtype = float32

datatype element = NaN | Number int

record ndarray =
  array_shape :: "nat list"
  array_dtype :: dtype
  array_data :: "element list"

definition np_full :: "nat list \<Rightarrow> element \<Rightarrow> dtype \<Rightarrow> ndarray" where
  "np_full shp fill_value dt =
     \<lparr>array_shape = shp, array_dtype = dt, array_data = replicate (prod_list shp) fill_value\<rparr>"

record variable =
  paramId :: scalar
  stream :: stream
  name :: scalar
  paramId_index :: index
  significant_keys :: "string list"
  significant_index :: index
  attrs :: "(string, scalar) dict"
  coordinates :: "(string, scalar list) dict"
  dimensions :: "string list"
  ndim :: nat
  shape :: "nat list"
  dtype :: dtype
  scale :: bool
  mask :: bool
  size_attr :: scalar
  build_array_cache :: "ndarray option"

text \<open>\<^verbatim>\<open>'%s' % value\<close> for the values of the model.\<close>

fun str_nat :: "nat \<Rightarrow> string" where
  "str_nat n =
     (if n < 10 then [''0123456789'' ! n] else str_nat (n div 10) @ [''0123456789'' ! (n mod 10)])"

definition str_scalar :: "scalar \<Rightarrow> string" where
  "str_scalar v =
     (case v of
        PyNone \<Rightarrow> ''None''
      | PyInt i \<Rightarrow> (if i < 0 then ''-'' @ str_nat (nat (- i)) else str_nat (nat i))
      | PyStr s \<Rightarrow> s)"

text \<open>
  \<^verbatim>\<open>Variable.__attrs_post_init__\<close>, run on the three attributes the generated
  constructor has stored.
\<close>

definition Variable_post_init ::
  "files \<Rightarrow> scalar \<Rightarrow> stream \<Rightarrow> scalar \<Rightarrow> (error + variable) \<times> log_record list" where
  "Variable_post_init files paramId0 stream0 name0 =
     (let paramId_index0 = stream_index files stream0 [''paramId''] in
      if index_len paramId_index0 > 1 then (Inl NotImplementedError_only_one_variable, [])
      else
        (case index_select paramId_index0 ''paramId'' paramId0 of
           [] \<Rightarrow> (Inl StopIteration, [])
         | leader # _ \<Rightarrow>
             (let name1 =
                    (if name0 = PyNone
                     then message_get leader ''shortName''
                            (PyStr (''paramId=='' @ str_scalar paramId0))
                     else name0);
                  (significant_keys0, logged) =
                    sniff_significant_keys leader EDITION_INDEPENDENT_KEYS GRID_TYPE_MAP;
                  significant_index0 = Index files (stream_path stream0) significant_keys0
              in
                (case sniff_variable_attrs (index_lookup significant_index0)
                        VARIABLE_ATTRS_KEYS GRID_TYPE_MAP of
                   Inl e \<Rightarrow> (Inl e, logged)
                 | Inr attrs0 \<Rightarrow>
                     (case sniff_raw_coordinates (index_lookup significant_index0)
                             RAW_COORDINATES_KEYS GRID_TYPE_MAP of
                        Inl e \<Rightarrow> (Inl e, logged)
                      | Inr coordinates0 \<Rightarrow>
                          (let dimensions0 =
                                 map fst (filter (\<lambda>(name, coord). length coord > 1) coordinates0);
                               shape0 =
                                 map length (filter (\<lambda>coord. length coord > 1)
                                               (map snd coordinates0))
                           in
                             (case message_getitem leader ''numberOfDataPoints'' of
                                Inl e \<Rightarrow> (Inl e, logged)
                              | Inr size0 \<Rightarrow>
                                  (Inr \<lparr>paramId = paramId0, stream = stream0, name = name1,
                                        paramId_index = paramId_index0,
                                        significant_keys = significant_keys0,
                                        significant_index = significant_index0,
                                        attrs = attrs0, coordinates = coordinates0,
                                        dimensions = dimensions0,
                                        ndim = length dimensions0,
                                        shape = shape0, dtype = float32,
                                        scale = True, mask = False, size_attr = size0,
                                        build_array_cache = None\<rparr>,
                                   logged))))))))"

text \<open>
  The constructor \<^verbatim>\<open>attr.attrs()\<close> generates for the class has the signature
  \<^verbatim>\<open>__init__(self, paramId, stream, name=None)\<close>. A call is given by the keyword arguments
  it passes: the three the signature knows, each present or not, and the names of any
  other keyword. Python rejects a call with an unknown keyword or without a required
  argument before the body runs.
\<close>

definition Variable_new ::
  "files \<Rightarrow> scalar option \<Rightarrow> stream option \<Rightarrow> scalar option \<Rightarrow> string list
     \<Rightarrow> (error + variable) \<times> log_record list" where
  "Variable_new files paramId_arg stream_arg name_arg other_keywords =
     (case other_keywords of
        keyword # _ \<Rightarrow> (Inl (TypeError_unexpected_keyword keyword), [])
      | [] \<Rightarrow>
          (case paramId_arg of
             None \<Rightarrow> (Inl (TypeError_missing_argument ''paramId''), [])
           | Some paramId0 \<Rightarrow>
               (case stream_arg of
                  None \<Rightarrow> (Inl (TypeError_missing_argument ''stream''), [])
                | Some stream0 \<Rightarrow>
                    Variable_post_init files paramId0 stream0
                      (case name_arg of None \<Rightarrow> PyNone | Some n \<Rightarrow> n))))"

text \<open>\<^verbatim>\<open>Variable.build_array\<close>: the method, and the method under \<^verbatim>\<open>@cached\<close>.\<close>

definition build_array_method :: "variable \<Rightarrow> (error + ndarray) \<times> log_record list" where
  "build_array_method self = (Inr (np_full (shape self) NaN (dtype self)), [])"

definition build_array :: "variable \<Rightarrow> (error + ndarray \<times> variable) \<times> log_record list" where
  "build_array =
     cached build_array_cache (\<lambda>self v. self\<lparr>build_array_cache := Some v\<rparr>) build_array_method"

text \<open>The Variable as a call of \<^verbatim>\<open>build_array\<close> leaves it.\<close>

definition after_build_array :: "variable \<Rightarrow> variable" where
  "after_build_array self =
     (case fst (build_array self) of Inr (_, self') \<Rightarrow> self' | Inl _ \<Rightarrow> self)"

section \<open>Dataset\<close>

record dataset =
  dataset_path :: string
  dataset_mode :: string
  dataset_stream :: stream
  variables_cache :: "(scalar, variable) dict option"

text \<open>\<^verbatim>\<open>Dataset(path, mode)\<close>, with \<^verbatim>\<open>__attrs_post_init__\<close> opening the stream.\<close>

definition Dataset :: "string \<Rightarrow> string \<Rightarrow> dataset" where
  "Dataset path mode =
     \<lparr>dataset_path = path, dataset_mode = mode, dataset_stream = Stream path mode,
      variables_cache = None\<rparr>"

text \<open>
  The loop of \<^verbatim>\<open>Dataset.variables\<close>: each iteration calls
  \<^verbatim>\<open>Variable(paramId=param_id, dataset=self)\<close>.
\<close>

fun variables_loop ::
  "files \<Rightarrow> dataset \<Rightarrow> scalar list \<Rightarrow> (scalar, variable) dict \<Rightarrow> log_record list
     \<Rightarrow> (error + (scalar, variable) dict) \<times> log_record list" where
  "variables_loop files self [] variables logged = (Inr variables, logged)"
| "variables_loop files self (param_id # param_ids) variables logged =
     (case Variable_new files (Some param_id) None None [''dataset''] of
        (Inl e, logged') \<Rightarrow> (Inl e, logged @ logged')
      | (Inr variable, logged') \<Rightarrow>
          variables_loop files self param_ids
            (dict_set variables (name variable) variable) (logged @ logged'))"

definition variables_method ::
  "files \<Rightarrow> dataset \<Rightarrow> (error + (scalar, variable) dict) \<times> log_record list" where
  "variables_method files self =
     (let index0 = stream_index files (dataset_stream self) [''paramId''] in
      case index_lookup index0 ''paramId'' of
        None \<Rightarrow> (Inl (KeyError ''paramId''), [])
      | Some param_ids \<Rightarrow> variables_loop files self param_ids [] [])"

definition variables ::
  "files \<Rightarrow> dataset \<Rightarrow> (error + (scalar, variable) dict \<times> dataset) \<times> log_record list" where
  "variables files =
     cached variables_cache (\<lambda>self v. self\<lparr>variables_cache := Some v\<rparr>) (variables_method files)"

section \<open>Concrete inputs\<close>

text \<open>A leader message on a regular latitude/longitude grid; \<^verbatim>\<open>Nj\<close> is bound to \<^verbatim>\<open>None\<close>.\<close>

definition leader_ll :: message where
  "leader_ll = [(''paramId'', PyInt 130), (''gridType'', PyStr ''regular_ll''),
                (''Ni'', PyInt 4), (''Nj'', PyNone)]"

text \<open>
  A leader message whose grid type (spherical harmonics) is not in the catalog, and one
  that has no \<^verbatim>\<open>gridType\<close> at all.
\<close>

definition leader_sh :: message where
  "leader_sh = [(''paramId'', PyInt 130), (''gridType'', PyStr ''sh''), (''units'', PyNone)]"

definition leader_plain :: message where
  "leader_plain = [(''paramId'', PyInt 130), (''units'', PyStr ''K'')]"

text \<open>An index binding the five coordinate keys, and one that lacks \<^verbatim>\<open>number\<close>.\<close>

definition index_full :: index_map where
  "index_full = map_of
     [(''number'', [PyInt 1]), (''dataDate'', [PyInt 20200101]), (''dataTime'', [PyInt 0]),
      (''endStep'', [PyInt 0, PyInt 6, PyInt 12]), (''topLevel'', [PyInt 0])]"

definition index_no_number :: index_map where
  "index_no_number = map_of
     [(''dataDate'', [PyInt 20200101]), (''dataTime'', [PyInt 0]),
      (''endStep'', [PyInt 0, PyInt 6, PyInt 12]), (''topLevel'', [PyInt 0])]"

text \<open>An index that binds \<^verbatim>\<open>number\<close> to an empty value sequence.\<close>

definition index_empty_number :: index_map where
  "index_empty_number = map_of
     [(''number'', []), (''dataDate'', [PyInt 20200101]), (''dataTime'', [PyInt 0]),
      (''endStep'', [PyInt 0, PyInt 6, PyInt 12]), (''topLevel'', [PyInt 0])]"

text \<open>
  An index over the attribute keys and the keys of the regular latitude/longitude grid,
  each with one value; the same index with two units; the same index with no value for
  \<^verbatim>\<open>units\<close>.
\<close>

definition index_ll :: index_map where
  "index_ll = map_of
     [(''centre'', [PyStr ''ecmf'']), (''paramId'', [PyInt 130]), (''shortName'', [PyStr ''t'']),
      (''units'', [PyStr ''K'']), (''name'', [PyStr ''Temperature'']), (''stepUnits'', [PyInt 1]),
      (''stepType'', [PyStr ''instant'']), (''typeOfLevel'', [PyStr ''surface'']),
      (''gridType'', [PyStr ''regular_ll'']), (''numberOfDataPoints'', [PyInt 6]),
      (''Ni'', [PyInt 3]), (''Nj'', [PyInt 2]), (''iDirectionIncrementInDegrees'', [PyInt 1]),
      (''iScansNegatively'', [PyInt 0]), (''jDirectionIncrementInDegrees'', [PyInt 1]),
      (''jPointsAreConsecutive'', [PyInt 0]), (''jScansPositively'', [PyInt 0]),
      (''latitudeOfFirstGridPointInDegrees'', [PyInt 1]),
      (''latitudeOfLastGridPointInDegrees'', [PyInt 0]),
      (''longitudeOfFirstGridPointInDegrees'', [PyInt 0]),
      (''longitudeOfLastGridPointInDegrees'', [PyInt 2])]"

definition index_two_units :: index_map where
  "index_two_units = index_ll(''units'' \<mapsto> [PyStr ''K'', PyStr ''degC''])"

definition index_no_units :: index_map where
  "index_no_units = index_ll(''units'' \<mapsto> [])"

text \<open>
  An index that binds \<^verbatim>\<open>gridType\<close> to an empty value sequence, and one that does not bind
  it.
\<close>

definition index_empty_gridType :: index_map where
  "index_empty_gridType = map_of [(''gridType'', [])]"

definition index_units :: index_map where
  "index_units = map_of [(''units'', [PyStr ''K''])]"

text \<open>
  Three files. \<^verbatim>\<open>steps.grib\<close> holds three messages of one parameter that differ in
  \<^verbatim>\<open>endStep\<close> only; \<^verbatim>\<open>two.grib\<close> holds messages of two parameters; any other path holds
  no message.
\<close>

definition example_message :: "int \<Rightarrow> message" where
  "example_message step =
     [(''centre'', PyStr ''ecmf''), (''paramId'', PyInt 1), (''shortName'', PyStr ''t''),
      (''units'', PyStr ''K''), (''name'', PyStr ''Temperature''), (''stepUnits'', PyInt 1),
      (''stepType'', PyStr ''instant''), (''typeOfLevel'', PyStr ''surface''),
      (''gridType'', PyStr ''sh''), (''numberOfDataPoints'', PyInt 4),
      (''number'', PyInt 1), (''dataDate'', PyInt 20200101), (''dataTime'', PyInt 0),
      (''endStep'', PyInt step), (''topLevel'', PyInt 0)]"

definition bare_message :: "int \<Rightarrow> message" where
  "bare_message param = [(''paramId'', PyInt param)]"

definition example_files :: files where
  "example_files path =
     (if path = ''steps.grib'' then [example_message 0, example_message 6, example_message 12]
      else if path = ''two.grib'' then [bare_message 1, bare_message 2]
      else [])"

text \<open>The Variable built for parameter 1 from a stream over \<^verbatim>\<open>steps.grib\<close>.\<close>

definition example_variable :: variable where
  "example_variable =
     projr (fst (Variable_new example_files (Some (PyInt 1)) (Some (Stream ''steps.grib'' ''r''))
                   None []))"

text \<open>
  A file system in which every path holds one message, and the Variable built for
  parameter 1 from a stream over it: each coordinate key has one value there.
\<close>

definition single_files :: files where
  "single_files path = [example_message 0]"

definition single_variable :: variable where
  "single_variable =
     projr (fst (Variable_new single_files (Some (PyInt 1)) (Some (Stream ''one.grib'' ''r''))
                   None []))"

section \<open>Dictionaries\<close>

lemma map_of_dict_set: "map_of (dict_set d k v) = (map_of d)(k \<mapsto> v)"
  by (induction d k v rule: dict_set.induct) auto

lemma keys_dict_set: "fst ` set (dict_set d k v) = insert k (fst ` set d)"
  by (induction d k v rule: dict_set.induct) auto

lemma dict_set_fresh: "k \<notin> fst ` set d \<Longrightarrow> dict_set d k v = d @ [(k, v)]"
  by (induction d k v rule: dict_set.induct) auto

lemma distinct_keys_dict_set:
  "distinct (map fst d) \<Longrightarrow> distinct (map fst (dict_set d k v))"
  by (induction d k v rule: dict_set.induct) (auto simp: keys_dict_set)

section \<open>Properties of the significance sniffer\<close>

lemma count_list_filter:
  "count_list (filter P xs) k = (if P k then count_list xs k else 0)"
  by (induction xs) auto

text \<open>
  Claim C4. For a message whose \<^verbatim>\<open>gridType\<close> value is a key of the grid-type catalog,
  the significance sniffer returns the edition-independent keys followed by that grid
  type's keys, both filtered to the keys whose value in the message is present and not
  \<^verbatim>\<open>None\<close>. Nothing is deduplicated: a key occurs in the result as often as it occurs in
  the two lists together.
\<close>

theorem sniff_significant_keys_known_grid_type:
  assumes "catalog_lookup grid_type_map (message_get message ''gridType'' PyNone) =
             Some grid_type_keys"
  shows "fst (sniff_significant_keys message ei_keys grid_type_map) =
           filter (\<lambda>key. message_get message key PyNone \<noteq> PyNone) ei_keys @
           filter (\<lambda>key. message_get message key PyNone \<noteq> PyNone) grid_type_keys
         \<and> count_list (fst (sniff_significant_keys message ei_keys grid_type_map)) key =
           (if message_get message key PyNone \<noteq> PyNone
            then count_list ei_keys key + count_list grid_type_keys key else 0)"
  using assms by (simp add: sniff_significant_keys_def count_list_filter)

theorem sniff_significant_keys_known_grid_type_witness:
  "catalog_lookup GRID_TYPE_MAP (message_get leader_ll ''gridType'' PyNone) =
     Some [''Ni'', ''Nj'', ''iDirectionIncrementInDegrees'', ''iScansNegatively'',
           ''jDirectionIncrementInDegrees'', ''jPointsAreConsecutive'', ''jScansPositively'',
           ''latitudeOfFirstGridPointInDegrees'', ''latitudeOfLastGridPointInDegrees'',
           ''longitudeOfFirstGridPointInDegrees'', ''longitudeOfLastGridPointInDegrees'']
   \<and> fst (sniff_significant_keys leader_ll [''paramId'', ''Ni'', ''units''] GRID_TYPE_MAP) =
       [''paramId'', ''Ni'', ''Ni'']
   \<and> count_list
         (fst (sniff_significant_keys leader_ll [''paramId'', ''Ni'', ''units''] GRID_TYPE_MAP))
         ''Ni'' = 2"
proof -
  have h: "catalog_lookup GRID_TYPE_MAP (message_get leader_ll ''gridType'' PyNone) =
     Some [''Ni'', ''Nj'', ''iDirectionIncrementInDegrees'', ''iScansNegatively'',
           ''jDirectionIncrementInDegrees'', ''jPointsAreConsecutive'', ''jScansPositively'',
           ''latitudeOfFirstGridPointInDegrees'', ''latitudeOfLastGridPointInDegrees'',
           ''longitudeOfFirstGridPointInDegrees'', ''longitudeOfLastGridPointInDegrees'']"
    by (simp add: catalog_lookup_def message_get_def leader_ll_def GRID_TYPE_MAP_def)
  show ?thesis
    using sniff_significant_keys_known_grid_type
            [OF h, of "[''paramId'', ''Ni'', ''units'']" "''Ni''"] h
    by (simp add: message_get_def leader_ll_def)
qed

text \<open>
  Claim C5. For a message whose \<^verbatim>\<open>gridType\<close> value is not a key of the grid-type catalog
  (a missing \<^verbatim>\<open>gridType\<close> reads as \<^verbatim>\<open>None\<close>, which is no key either), the significance
  sniffer raises nothing: it logs one warning and returns exactly the edition-independent
  keys whose value in the message is present and not \<^verbatim>\<open>None\<close>, in their catalog order.
\<close>

theorem sniff_significant_keys_unknown_grid_type:
  assumes "catalog_lookup grid_type_map (message_get message ''gridType'' PyNone) = None"
  shows "sniff_significant_keys message ei_keys grid_type_map =
           (filter (\<lambda>key. message_get message key PyNone \<noteq> PyNone) ei_keys,
            [(''unknown gridType %r'', message_get message ''gridType'' PyNone)])"
  using assms by (simp add: sniff_significant_keys_def)

theorem sniff_significant_keys_unknown_grid_type_witness:
  "catalog_lookup GRID_TYPE_MAP (message_get leader_sh ''gridType'' PyNone) = None
   \<and> sniff_significant_keys leader_sh EDITION_INDEPENDENT_KEYS GRID_TYPE_MAP =
       ([''paramId'', ''gridType''], [(''unknown gridType %r'', PyStr ''sh'')])
   \<and> catalog_lookup GRID_TYPE_MAP (message_get leader_plain ''gridType'' PyNone) = None
   \<and> sniff_significant_keys leader_plain EDITION_INDEPENDENT_KEYS GRID_TYPE_MAP =
       ([''paramId'', ''units''], [(''unknown gridType %r'', PyNone)])"
proof -
  have h: "catalog_lookup GRID_TYPE_MAP (message_get leader_sh ''gridType'' PyNone) = None"
    by (simp add: catalog_lookup_def message_get_def leader_sh_def GRID_TYPE_MAP_def)
  have h': "catalog_lookup GRID_TYPE_MAP (message_get leader_plain ''gridType'' PyNone) = None"
    by (simp add: catalog_lookup_def message_get_def leader_plain_def)
  show ?thesis
    using sniff_significant_keys_unknown_grid_type [OF h, of EDITION_INDEPENDENT_KEYS]
      sniff_significant_keys_unknown_grid_type [OF h', of EDITION_INDEPENDENT_KEYS] h h'
    by (simp add: message_get_def leader_sh_def leader_plain_def EDITION_INDEPENDENT_KEYS_def
        NAMESPACE_KEYS_def PARAMETER_KEYS_def TIME_KEYS_def GEOGRAPHY_KEYS_def
        VERTICAL_KEYS_def DATA_KEYS_def ENSEMBLE_KEYS_def)
qed

section \<open>Properties of the coordinate sniffer\<close>

lemma raw_coordinates_loop_bound:
  "\<forall>key\<in>set keys. idx key \<noteq> None \<Longrightarrow> distinct keys \<Longrightarrow> set keys \<inter> fst ` set acc = {} \<Longrightarrow>
   raw_coordinates_loop idx keys acc = Inr (acc @ map (\<lambda>key. (key, the (idx key))) keys)"
proof (induction keys arbitrary: acc)
  case Nil
  then show ?case by simp
next
  case (Cons k ks)
  from Cons.prems obtain vs where vs: "idx k = Some vs" by auto
  have fresh: "k \<notin> fst ` set acc" using Cons.prems by auto
  have "set ks \<inter> fst ` set (acc @ [(k, vs)]) = {}" using Cons.prems by auto
  with Cons.IH[of "acc @ [(k, vs)]"] Cons.prems
  show ?case by (simp add: vs dict_set_fresh[OF fresh])
qed

lemma raw_coordinates_loop_unbound:
  "\<exists>key\<in>set keys. idx key = None \<Longrightarrow>
   \<exists>key\<in>set keys. idx key = None \<and> raw_coordinates_loop idx keys acc = Inl (KeyError key)"
  by (induction keys arbitrary: acc) (auto split: option.splits)

lemma distinct_RAW_COORDINATES_KEYS: "distinct RAW_COORDINATES_KEYS"
  by (simp add: RAW_COORDINATES_KEYS_def)

lemma sniff_raw_coordinates_Inr:
  assumes "sniff_raw_coordinates idx RAW_COORDINATES_KEYS gmap = Inr c"
  shows "c = map (\<lambda>key. (key, the (idx key))) RAW_COORDINATES_KEYS"
proof (cases "\<exists>key\<in>set RAW_COORDINATES_KEYS. idx key = None")
  case True
  from raw_coordinates_loop_unbound[OF True, of "[]"] assms show ?thesis
    by (auto simp: sniff_raw_coordinates_def)
next
  case False
  then have "\<forall>key\<in>set RAW_COORDINATES_KEYS. idx key \<noteq> None" by simp
  from raw_coordinates_loop_bound[OF this distinct_RAW_COORDINATES_KEYS, of "[]"] assms
  show ?thesis by (simp add: sniff_raw_coordinates_def)
qed

text \<open>
  Claim C6, as stated, fails. The index \<open>index_empty_number\<close> has no entries for
  \<^verbatim>\<open>number\<close>: its value sequence for that key is empty. The coordinate sniffer does not
  fail on it; it returns a mapping that binds \<^verbatim>\<open>number\<close> to the empty sequence.
\<close>

theorem sniff_raw_coordinates_empty_sequence:
  "index_empty_number ''number'' = Some []
   \<and> sniff_raw_coordinates index_empty_number RAW_COORDINATES_KEYS GRID_TYPE_MAP =
       Inr [(''number'', []), (''dataDate'', [PyInt 20200101]), (''dataTime'', [PyInt 0]),
            (''endStep'', [PyInt 0, PyInt 6, PyInt 12]), (''topLevel'', [PyInt 0])]"
  by (simp add: index_empty_number_def sniff_raw_coordinates_def RAW_COORDINATES_KEYS_def)

text \<open>
  Claim C6, amended. The coordinate sniffer fails when the index does not bind one of the
  five coordinate keys (\<^verbatim>\<open>number\<close>, \<^verbatim>\<open>dataDate\<close>, \<^verbatim>\<open>dataTime\<close>, \<^verbatim>\<open>endStep\<close>,
  \<^verbatim>\<open>topLevel\<close>), that is when the lookup \<^verbatim>\<open>significant_index[key]\<close> finds no value
  sequence for it: it raises the \<^verbatim>\<open>KeyError\<close> of such a key. Otherwise it returns a
  mapping that binds the five keys, in their order, each to the value sequence the index
  has for it, unchanged: the same elements in the same order, so a sequence of one value
  stays a sequence of length one, and an empty sequence stays empty.
\<close>

theorem sniff_raw_coordinates_required_keys:
  "((\<exists>key\<in>set RAW_COORDINATES_KEYS. idx key = None) \<longrightarrow>
      (\<exists>key\<in>set RAW_COORDINATES_KEYS. idx key = None \<and>
         sniff_raw_coordinates idx RAW_COORDINATES_KEYS grid_type_map = Inl (KeyError key)))
   \<and> ((\<forall>key\<in>set RAW_COORDINATES_KEYS. idx key \<noteq> None) \<longrightarrow>
      sniff_raw_coordinates idx RAW_COORDINATES_KEYS grid_type_map =
        Inr (map (\<lambda>key. (key, the (idx key))) RAW_COORDINATES_KEYS))"
  unfolding sniff_raw_coordinates_def
  using raw_coordinates_loop_unbound[of RAW_COORDINATES_KEYS idx "[]"]
    raw_coordinates_loop_bound[of RAW_COORDINATES_KEYS idx "[]",
      OF _ distinct_RAW_COORDINATES_KEYS]
  by auto

theorem sniff_raw_coordinates_required_keys_witness:
  "index_no_number ''number'' = None
   \<and> sniff_raw_coordinates index_no_number RAW_COORDINATES_KEYS GRID_TYPE_MAP =
       Inl (KeyError ''number'')
   \<and> map index_full RAW_COORDINATES_KEYS =
       [Some [PyInt 1], Some [PyInt 20200101], Some [PyInt 0],
        Some [PyInt 0, PyInt 6, PyInt 12], Some [PyInt 0]]
   \<and> sniff_raw_coordinates index_full RAW_COORDINATES_KEYS GRID_TYPE_MAP =
       Inr [(''number'', [PyInt 1]), (''dataDate'', [PyInt 20200101]), (''dataTime'', [PyInt 0]),
            (''endStep'', [PyInt 0, PyInt 6, PyInt 12]), (''topLevel'', [PyInt 0])]"
  using sniff_raw_coordinates_required_keys [of index_no_number GRID_TYPE_MAP]
    sniff_raw_coordinates_required_keys [of index_full GRID_TYPE_MAP]
  by (simp add: index_no_number_def index_full_def RAW_COORDINATES_KEYS_def)

text \<open>
  Claim C10. The coordinate sniffer never consults its grid-type catalog: on the same
  index and key list, any two catalogs give the same result.
\<close>

theorem sniff_raw_coordinates_ignores_catalog:
  "sniff_raw_coordinates idx keys grid_type_map = sniff_raw_coordinates idx keys grid_type_map'"
  by (simp add: sniff_raw_coordinates_def)

section \<open>Properties of the attribute sniffer\<close>

lemma attrs_loop_multiple:
  assumes "\<forall>key\<in>set keys. \<exists>vs. idx key = Some vs \<and> vs \<noteq> []"
    and "\<exists>key\<in>set keys. 1 < length (the (idx key))"
  shows "\<exists>key\<in>set keys. 1 < length (the (idx key)) \<and>
           attrs_loop idx keys acc = Inl (NotImplementedError_multiple_values key (the (idx key)))"
  using assms
proof (induction keys arbitrary: acc)
  case Nil
  then show ?case by simp
next
  case (Cons k ks)
  from Cons.prems(1) obtain v vs where kv: "idx k = Some (v # vs)"
    by (cases "the (idx k)") auto
  show ?case
  proof (cases "vs = []")
    case True
    with kv Cons.prems have "\<exists>key\<in>set ks. 1 < length (the (idx key))" by auto
    with Cons.IH[of "dict_set acc k v"] Cons.prems(1) kv True show ?thesis by auto
  next
    case False
    with kv show ?thesis by (cases vs) auto
  qed
qed

lemma attrs_loop_single:
  assumes "\<forall>key\<in>set keys. \<exists>v. idx key = Some [v]"
  shows "\<exists>d. attrs_loop idx keys acc = Inr d \<and> fst ` set d = fst ` set acc \<union> set keys \<and>
           (\<forall>key\<in>set keys. idx key = Some [the (map_of d key)]) \<and>
           (\<forall>k. k \<notin> set keys \<longrightarrow> map_of d k = map_of acc k) \<and>
           (distinct (map fst acc) \<longrightarrow> distinct (map fst d))"
  using assms
proof (induction keys arbitrary: acc)
  case Nil
  then show ?case by simp
next
  case (Cons k ks)
  from Cons.prems obtain v where kv: "idx k = Some [v]" by auto
  from Cons.prems have "\<forall>key\<in>set ks. \<exists>v. idx key = Some [v]" by simp
  from Cons.IH[OF this, of "dict_set acc k v"] obtain d where
    d: "attrs_loop idx ks (dict_set acc k v) = Inr d"
      "fst ` set d = fst ` set (dict_set acc k v) \<union> set ks"
      "\<forall>key\<in>set ks. idx key = Some [the (map_of d key)]"
      "\<forall>k'. k' \<notin> set ks \<longrightarrow> map_of d k' = map_of (dict_set acc k v) k'"
      "distinct (map fst (dict_set acc k v)) \<longrightarrow> distinct (map fst d)"
    by blast
  have 1: "attrs_loop idx (k # ks) acc = Inr d" using kv d(1) by simp
  have 2: "fst ` set d = fst ` set acc \<union> set (k # ks)" using d(2) by (auto simp: keys_dict_set)
  have 3: "\<forall>key\<in>set (k # ks). idx key = Some [the (map_of d key)]"
  proof
    fix key assume "key \<in> set (k # ks)"
    show "idx key = Some [the (map_of d key)]"
    proof (cases "key \<in> set ks")
      case True
      with d(3) show ?thesis by blast
    next
      case False
      with \<open>key \<in> set (k # ks)\<close> have "key = k" by simp
      with False d(4) kv show ?thesis by (simp add: map_of_dict_set)
    qed
  qed
  have 4: "\<forall>k'. k' \<notin> set (k # ks) \<longrightarrow> map_of d k' = map_of acc k'"
    using d(4) by (simp add: map_of_dict_set)
  have 5: "distinct (map fst acc) \<longrightarrow> distinct (map fst d)"
    using d(5) by (simp add: distinct_keys_dict_set)
  from 1 2 3 4 5 show ?case by blast
qed

lemma tracked_keys_regular_ll:
  "tracked_keys VARIABLE_ATTRS_KEYS GRID_TYPE_MAP (PyStr ''regular_ll'') =
     [''centre'', ''paramId'', ''shortName'', ''units'', ''name'', ''stepUnits'', ''stepType'',
      ''typeOfLevel'', ''gridType'', ''numberOfDataPoints'',
      ''Ni'', ''Nj'', ''iDirectionIncrementInDegrees'', ''iScansNegatively'',
      ''jDirectionIncrementInDegrees'', ''jPointsAreConsecutive'', ''jScansPositively'',
      ''latitudeOfFirstGridPointInDegrees'', ''latitudeOfLastGridPointInDegrees'',
      ''longitudeOfFirstGridPointInDegrees'', ''longitudeOfLastGridPointInDegrees'']"
  by (simp add: tracked_keys_def VARIABLE_ATTRS_KEYS_def GRID_TYPE_MAP_def catalog_lookup_def)

text \<open>
  Claim C2, as stated, fails. The index \<open>index_no_units\<close> binds every tracked key, none
  of them to two or more values, and \<^verbatim>\<open>units\<close> to no value at all: the sniffer returns no
  mapping, it raises \<^verbatim>\<open>IndexError\<close> when it takes the first value of \<^verbatim>\<open>units\<close>.
\<close>

theorem sniff_variable_attrs_empty_sequence:
  "map index_no_units (tracked_keys VARIABLE_ATTRS_KEYS GRID_TYPE_MAP (PyStr ''regular_ll'')) =
     [Some [PyStr ''ecmf''], Some [PyInt 130], Some [PyStr ''t''], Some [],
      Some [PyStr ''Temperature''], Some [PyInt 1], Some [PyStr ''instant''],
      Some [PyStr ''surface''], Some [PyStr ''regular_ll''], Some [PyInt 6],
      Some [PyInt 3], Some [PyInt 2], Some [PyInt 1], Some [PyInt 0], Some [PyInt 1],
      Some [PyInt 0], Some [PyInt 0], Some [PyInt 1], Some [PyInt 0], Some [PyInt 0],
      Some [PyInt 2]]
   \<and> index_grid_type index_no_units = Inr (PyStr ''regular_ll'')
   \<and> sniff_variable_attrs index_no_units VARIABLE_ATTRS_KEYS GRID_TYPE_MAP = Inl IndexError"
  by (simp add: index_no_units_def index_ll_def tracked_keys_regular_ll
      index_grid_type_def sniff_variable_attrs_def)

text \<open>
  Claim C2, amended. Take an index whose grid type can be determined and which binds
  every tracked key (the attribute keys followed by the keys of that grid type) to a
  non-empty value sequence without repetitions. Then the attribute sniffer raises the
  inconsistent-attribute error if and only if some tracked key has two or more distinct
  values, and then it returns no mapping; and if no tracked key has two or more, it
  returns a mapping whose keys are exactly the tracked keys, each bound to the sole
  value the index has for it.
\<close>

theorem sniff_variable_attrs_consistent:
  assumes gt: "index_grid_type idx = Inr grid_type"
    and bound: "\<forall>key\<in>set (tracked_keys attrs_keys gmap grid_type).
                  \<exists>vs. idx key = Some vs \<and> vs \<noteq> [] \<and> distinct vs"
  shows "((\<exists>key vs. sniff_variable_attrs idx attrs_keys gmap =
                      Inl (NotImplementedError_multiple_values key vs)) \<longleftrightarrow>
          (\<exists>key\<in>set (tracked_keys attrs_keys gmap grid_type). 2 \<le> card (set (the (idx key)))))
       \<and> ((\<forall>key\<in>set (tracked_keys attrs_keys gmap grid_type). card (set (the (idx key))) < 2) \<longrightarrow>
          (\<exists>d. sniff_variable_attrs idx attrs_keys gmap = Inr d \<and>
               fst ` set d = set (tracked_keys attrs_keys gmap grid_type) \<and>
               distinct (map fst d) \<and>
               (\<forall>key\<in>set (tracked_keys attrs_keys gmap grid_type).
                  idx key = Some [the (map_of d key)])))"
proof -
  let ?keys = "tracked_keys attrs_keys gmap grid_type"
  have run: "sniff_variable_attrs idx attrs_keys gmap = attrs_loop idx ?keys []"
    using gt by (simp add: sniff_variable_attrs_def)
  have len: "card (set (the (idx key))) = length (the (idx key))" if "key \<in> set ?keys" for key
    using bound that by (auto simp: distinct_card)
  have ne: "\<forall>key\<in>set ?keys. \<exists>vs. idx key = Some vs \<and> vs \<noteq> []" using bound by blast
  have multi: "\<exists>key vs. attrs_loop idx ?keys [] = Inl (NotImplementedError_multiple_values key vs)"
    if "\<exists>key\<in>set ?keys. 2 \<le> card (set (the (idx key)))"
  proof -
    from that obtain key where k: "key \<in> set ?keys" "2 \<le> card (set (the (idx key)))" by blast
    with len[OF k(1)] have "1 < length (the (idx key))" by simp
    with k(1) have "\<exists>key\<in>set ?keys. 1 < length (the (idx key))" by blast
    from attrs_loop_multiple[OF ne this, of "[]"] show ?thesis by blast
  qed
  have single: "\<exists>d. attrs_loop idx ?keys [] = Inr d \<and> fst ` set d = set ?keys \<and>
                  distinct (map fst d) \<and> (\<forall>key\<in>set ?keys. idx key = Some [the (map_of d key)])"
    if "\<forall>key\<in>set ?keys. card (set (the (idx key))) < 2"
  proof -
    have "\<forall>key\<in>set ?keys. \<exists>v. idx key = Some [v]"
    proof
      fix key assume k: "key \<in> set ?keys"
      with bound obtain vs where vs: "idx key = Some vs" "vs \<noteq> []" by blast
      from that k have "card (set (the (idx key))) < 2" by blast
      with len[OF k] vs have "length vs < 2" by simp
      with vs show "\<exists>v. idx key = Some [v]" by (cases vs) auto
    qed
    from attrs_loop_single[OF this, of "[]"] show ?thesis by auto
  qed
  have "\<not> (\<exists>key\<in>set ?keys. 2 \<le> card (set (the (idx key)))) \<Longrightarrow>
        \<not> (\<exists>key vs. attrs_loop idx ?keys [] = Inl (NotImplementedError_multiple_values key vs))"
  proof -
    assume "\<not> (\<exists>key\<in>set ?keys. 2 \<le> card (set (the (idx key))))"
    then have "\<forall>key\<in>set ?keys. card (set (the (idx key))) < 2" by auto
    from single[OF this] show ?thesis by auto
  qed
  with multi single show ?thesis unfolding run by blast
qed

theorem sniff_variable_attrs_consistent_witness:
  "index_grid_type index_ll = Inr (PyStr ''regular_ll'')
   \<and> (\<exists>d. sniff_variable_attrs index_ll VARIABLE_ATTRS_KEYS GRID_TYPE_MAP = Inr d \<and>
          fst ` set d = set (tracked_keys VARIABLE_ATTRS_KEYS GRID_TYPE_MAP (PyStr ''regular_ll'')))
   \<and> index_grid_type index_two_units = Inr (PyStr ''regular_ll'')
   \<and> index_two_units ''units'' = Some [PyStr ''K'', PyStr ''degC'']
   \<and> (\<exists>key vs. sniff_variable_attrs index_two_units VARIABLE_ATTRS_KEYS GRID_TYPE_MAP =
                 Inl (NotImplementedError_multiple_values key vs))"
proof -
  let ?keys = "tracked_keys VARIABLE_ATTRS_KEYS GRID_TYPE_MAP (PyStr ''regular_ll'')"
  note keys = tracked_keys_regular_ll
  have g1: "index_grid_type index_ll = Inr (PyStr ''regular_ll'')"
    by (simp add: index_grid_type_def index_ll_def)
  have b1: "\<forall>key\<in>set ?keys. \<exists>vs. index_ll key = Some vs \<and> vs \<noteq> [] \<and> distinct vs"
    unfolding keys by (simp add: index_ll_def)
  have s1: "\<forall>key\<in>set ?keys. card (set (the (index_ll key))) < 2"
    unfolding keys by (simp add: index_ll_def)
  have g2: "index_grid_type index_two_units = Inr (PyStr ''regular_ll'')"
    by (simp add: index_grid_type_def index_two_units_def index_ll_def)
  have b2: "\<forall>key\<in>set ?keys. \<exists>vs. index_two_units key = Some vs \<and> vs \<noteq> [] \<and> distinct vs"
    unfolding keys by (simp add: index_two_units_def index_ll_def)
  have u: "index_two_units ''units'' = Some [PyStr ''K'', PyStr ''degC'']"
    by (simp add: index_two_units_def)
  have "''units'' \<in> set ?keys" unfolding keys by simp
  moreover have "2 \<le> card (set (the (index_two_units ''units'')))" by (simp add: u)
  ultimately have m2: "\<exists>key\<in>set ?keys. 2 \<le> card (set (the (index_two_units key)))" by blast
  from sniff_variable_attrs_consistent [OF g1 b1] s1
    sniff_variable_attrs_consistent [OF g2 b2] m2 g1 g2 u
  show ?thesis by blast
qed

text \<open>
  Claim C8, as stated, fails. The index \<open>index_empty_gridType\<close> has an empty value
  sequence for \<^verbatim>\<open>gridType\<close>: the grid-type determination takes the first element of that
  sequence and raises \<^verbatim>\<open>IndexError\<close>, before any attribute key is looked at.
\<close>

theorem sniff_variable_attrs_empty_gridType:
  "index_empty_gridType ''gridType'' = Some []
   \<and> index_grid_type index_empty_gridType = Inl IndexError
   \<and> sniff_variable_attrs index_empty_gridType VARIABLE_ATTRS_KEYS GRID_TYPE_MAP = Inl IndexError"
  by (simp add: index_empty_gridType_def index_grid_type_def sniff_variable_attrs_def)

text \<open>
  Claim C8, amended. For an index that does not bind the key \<^verbatim>\<open>gridType\<close> (the lookup
  falls back on its default), the grid-type determination does not fail, the dataset is
  treated as having no grid-type-specific keys, and the attribute sniffer goes on to
  process the attribute-key list alone.
\<close>

theorem sniff_variable_attrs_no_gridType:
  assumes "idx ''gridType'' = None"
  shows "index_grid_type idx = Inr PyNone
       \<and> tracked_keys attrs_keys gmap PyNone = attrs_keys
       \<and> sniff_variable_attrs idx attrs_keys gmap = attrs_loop idx attrs_keys []"
  using assms
  by (simp add: index_grid_type_def tracked_keys_def catalog_lookup_def sniff_variable_attrs_def)

theorem sniff_variable_attrs_no_gridType_witness:
  "index_units ''gridType'' = None
   \<and> sniff_variable_attrs index_units [''units''] GRID_TYPE_MAP = Inr [(''units'', PyStr ''K'')]"
proof -
  have h: "index_units ''gridType'' = None" by (simp add: index_units_def)
  show ?thesis
    using sniff_variable_attrs_no_gridType [of index_units "[''units'']" GRID_TYPE_MAP, OF h] h
    by (simp add: index_units_def)
qed

section \<open>Properties of Variable\<close>

lemma coords_of_keys:
  "map fst (filter (\<lambda>(name, coord). P coord) (map (\<lambda>key. (key, f key)) keys)) =
     filter (\<lambda>key. P (f key)) keys"
  by (induction keys) auto

lemma shape_of_keys:
  "map length (filter P (map snd (map (\<lambda>key. (key, f key)) keys))) =
     map (\<lambda>key. length (f key)) (filter (\<lambda>key. P (f key)) keys)"
  by (induction keys) auto

lemma map_of_keys:
  "key \<in> set keys \<Longrightarrow> map_of (map (\<lambda>key. (key, f key)) keys) key = Some (f key)"
  by (induction keys) auto

text \<open>What a construction that succeeds has stored.\<close>

lemma Variable_post_init_Inr:
  assumes "fst (Variable_post_init files p s n) = Inr v"
  shows "\<exists>idx. sniff_raw_coordinates idx RAW_COORDINATES_KEYS GRID_TYPE_MAP = Inr (coordinates v) \<and>
     dimensions v = map fst (filter (\<lambda>(name, coord). length coord > 1) (coordinates v)) \<and>
     shape v = map length (filter (\<lambda>coord. length coord > 1) (map snd (coordinates v))) \<and>
     ndim v = length (dimensions v) \<and> build_array_cache v = None \<and> dtype v = float32"
  using assms unfolding Variable_post_init_def
  by (auto simp: Let_def split: if_splits list.splits sum.splits prod.splits)

lemma Variable_new_Inr:
  assumes "fst (Variable_new files a b c d) = Inr v"
  shows "\<exists>p s n. fst (Variable_post_init files p s n) = Inr v"
  using assms unfolding Variable_new_def
  by (auto split: list.splits option.splits)

lemma example_variable_constructed:
  "fst (Variable_new example_files (Some (PyInt 1)) (Some (Stream ''steps.grib'' ''r'')) None [])
     = Inr example_variable"
  by code_simp

lemma sniff_raw_coordinates_Inr_bound:
  assumes "sniff_raw_coordinates idx RAW_COORDINATES_KEYS gmap = Inr c"
  shows "\<forall>key\<in>set RAW_COORDINATES_KEYS. idx key \<noteq> None"
proof (rule ccontr)
  assume "\<not> (\<forall>key\<in>set RAW_COORDINATES_KEYS. idx key \<noteq> None)"
  then have "\<exists>key\<in>set RAW_COORDINATES_KEYS. idx key = None" by simp
  from raw_coordinates_loop_unbound[OF this, of "[]"] assms show False
    by (auto simp: sniff_raw_coordinates_def)
qed

text \<open>
  The stream a constructed Variable holds is the one it was given, its finer index is
  built over the file of that stream, and its coordinates are what the coordinate
  sniffer returns on that index.
\<close>

lemma Variable_post_init_index:
  assumes "fst (Variable_post_init files p s n) = Inr v"
  shows "stream v = s \<and>
     significant_index v = Index files (stream_path s) (significant_keys v) \<and>
     sniff_raw_coordinates (index_lookup (significant_index v)) RAW_COORDINATES_KEYS
       GRID_TYPE_MAP = Inr (coordinates v)"
  using assms unfolding Variable_post_init_def
  by (auto simp: Let_def split: if_splits list.splits sum.splits prod.splits)

lemma Variable_new_stream:
  assumes "fst (Variable_new files a b c d) = Inr v"
  shows "b = Some (stream v) \<and> (\<exists>p n. fst (Variable_post_init files p (stream v) n) = Inr v)"
proof -
  from assms obtain p s where b: "b = Some s"
    and r: "fst (Variable_post_init files p s (case c of None \<Rightarrow> PyNone | Some n \<Rightarrow> n)) = Inr v"
    unfolding Variable_new_def by (auto split: list.splits option.splits)
  from Variable_post_init_index[OF r] have "stream v = s" by blast
  with b r show ?thesis by blast
qed

lemma index_lookup_bound:
  "index_lookup ix key \<noteq> None \<Longrightarrow> the (index_lookup ix key) = index_values ix key"
  by (simp add: index_lookup_def split: if_splits)

lemma single_variable_constructed:
  "fst (Variable_new single_files (Some (PyInt 1)) (Some (Stream ''one.grib'' ''r'')) None [])
     = Inr single_variable"
  by code_simp

text \<open>
  Claim C7. Take a Variable whose construction succeeded. Its finer index is the index
  over the messages of the file of the stream it was constructed with, and the values
  observed for a key are the values that index holds for it. Then \<open>coordinates\<close> binds
  the five candidate coordinate keys, in their fixed order, each to its observed values;
  \<open>dimensions\<close> is the subsequence of those keys with more than one observed value, in
  that order; \<open>shape\<close> lists the numbers of observed values of the same keys in the same
  order, so it is as long as \<open>dimensions\<close> and its i-th entry is the length of the
  coordinate of the i-th dimension. A key with exactly one observed value is bound in
  \<open>coordinates\<close> (to that one value) and is not in \<open>dimensions\<close>, and \<open>shape\<close> has no
  entry for it: the entries of \<open>shape\<close> belong to the dimensions and each exceeds 1.
\<close>

theorem Variable_dimensions_shape:
  assumes "fst (Variable_new files paramId_arg stream_arg name_arg other_keywords) = Inr v"
  shows "stream_arg = Some (stream v)
     \<and> significant_index v = Index files (stream_path (stream v)) (significant_keys v)
     \<and> index_messages (significant_index v) = files (stream_path (stream v))
     \<and> coordinates v =
         map (\<lambda>key. (key, index_values (significant_index v) key)) RAW_COORDINATES_KEYS
     \<and> dimensions v =
         filter (\<lambda>key. 1 < length (index_values (significant_index v) key)) RAW_COORDINATES_KEYS
     \<and> shape v = map (\<lambda>key. length (index_values (significant_index v) key)) (dimensions v)
     \<and> map fst (coordinates v) = RAW_COORDINATES_KEYS
     \<and> dimensions v =
         filter (\<lambda>key. 1 < length (the (map_of (coordinates v) key))) RAW_COORDINATES_KEYS
     \<and> shape v = map (\<lambda>key. length (the (map_of (coordinates v) key))) (dimensions v)
     \<and> length (shape v) = length (dimensions v)
     \<and> ndim v = length (dimensions v)
     \<and> (\<forall>key\<in>set RAW_COORDINATES_KEYS.
          length (the (map_of (coordinates v) key)) = 1 \<longrightarrow> key \<notin> set (dimensions v))
     \<and> (\<forall>key\<in>set RAW_COORDINATES_KEYS.
          length (index_values (significant_index v) key) = 1 \<longrightarrow>
            map_of (coordinates v) key = Some (index_values (significant_index v) key) \<and>
            key \<notin> set (dimensions v))
     \<and> (\<forall>n\<in>set (shape v). 1 < n)"
proof -
  from Variable_new_stream[OF assms] obtain p n where
    sa: "stream_arg = Some (stream v)"
    and r: "fst (Variable_post_init files p (stream v) n) = Inr v" by blast
  from Variable_post_init_index[OF r] have
    si: "significant_index v = Index files (stream_path (stream v)) (significant_keys v)"
    and c: "sniff_raw_coordinates (index_lookup (significant_index v)) RAW_COORDINATES_KEYS
              GRID_TYPE_MAP = Inr (coordinates v)"
    by blast+
  have im: "index_messages (significant_index v) = files (stream_path (stream v))"
    by (subst si) (simp add: Index_def)
  from Variable_post_init_Inr[OF r] have
    d: "dimensions v = map fst (filter (\<lambda>(name, coord). length coord > 1) (coordinates v))"
    and sh: "shape v = map length (filter (\<lambda>coord. length coord > 1) (map snd (coordinates v)))"
    and nd: "ndim v = length (dimensions v)"
    by blast+
  let ?f = "\<lambda>key. index_values (significant_index v) key"
  have bound: "\<forall>key\<in>set RAW_COORDINATES_KEYS. index_lookup (significant_index v) key \<noteq> None"
    by (rule sniff_raw_coordinates_Inr_bound[OF c])
  have "coordinates v =
          map (\<lambda>key. (key, the (index_lookup (significant_index v) key))) RAW_COORDINATES_KEYS"
    by (rule sniff_raw_coordinates_Inr[OF c])
  also have "\<dots> = map (\<lambda>key. (key, ?f key)) RAW_COORDINATES_KEYS"
    using bound by (intro map_cong) (auto simp: index_lookup_bound)
  finally have cs: "coordinates v = map (\<lambda>key. (key, ?f key)) RAW_COORDINATES_KEYS" .
  have look: "map_of (coordinates v) key = Some (?f key)" if "key \<in> set RAW_COORDINATES_KEYS" for key
    using map_of_keys[OF that, of ?f] by (simp add: cs)
  have 1: "map fst (coordinates v) = RAW_COORDINATES_KEYS"
    by (simp add: cs comp_def)
  have d': "dimensions v = filter (\<lambda>key. 1 < length (?f key)) RAW_COORDINATES_KEYS"
    unfolding d cs by (rule coords_of_keys)
  have 2: "dimensions v =
         filter (\<lambda>key. 1 < length (the (map_of (coordinates v) key))) RAW_COORDINATES_KEYS"
    unfolding d' by (rule filter_cong) (simp_all add: look)
  have sh': "shape v = map (\<lambda>key. length (?f key)) (dimensions v)"
    unfolding sh d' unfolding cs by (rule shape_of_keys)
  have sub: "set (dimensions v) \<subseteq> set RAW_COORDINATES_KEYS" unfolding d' by auto
  have 3: "shape v = map (\<lambda>key. length (the (map_of (coordinates v) key))) (dimensions v)"
    unfolding sh' using sub by (intro map_cong) (auto simp: look)
  have 4: "length (shape v) = length (dimensions v)" by (simp add: sh')
  have 5: "\<forall>key\<in>set RAW_COORDINATES_KEYS.
          length (the (map_of (coordinates v) key)) = 1 \<longrightarrow> key \<notin> set (dimensions v)"
    by (auto simp: look d')
  have 6: "\<forall>key\<in>set RAW_COORDINATES_KEYS.
          length (?f key) = 1 \<longrightarrow>
            map_of (coordinates v) key = Some (?f key) \<and> key \<notin> set (dimensions v)"
    by (auto simp: look d')
  have 7: "\<forall>n\<in>set (shape v). 1 < n" by (auto simp: sh' d')
  from sa si im cs d' sh' 1 2 3 4 nd 5 6 7 show ?thesis by blast
qed

theorem Variable_dimensions_shape_witness:
  "fst (Variable_new example_files (Some (PyInt 1)) (Some (Stream ''steps.grib'' ''r'')) None [])
     = Inr example_variable
   \<and> index_values (significant_index example_variable) ''endStep'' = [PyInt 0, PyInt 6, PyInt 12]
   \<and> index_values (significant_index example_variable) ''number'' = [PyInt 1]
   \<and> map fst (coordinates example_variable) =
       [''number'', ''dataDate'', ''dataTime'', ''endStep'', ''topLevel'']
   \<and> map_of (coordinates example_variable) ''endStep'' = Some [PyInt 0, PyInt 6, PyInt 12]
   \<and> map_of (coordinates example_variable) ''number'' = Some [PyInt 1]
   \<and> dimensions example_variable = [''endStep'']
   \<and> shape example_variable = [3]
   \<and> fst (Variable_new single_files (Some (PyInt 1)) (Some (Stream ''one.grib'' ''r'')) None [])
     = Inr single_variable
   \<and> coordinates single_variable =
       [(''number'', [PyInt 1]), (''dataDate'', [PyInt 20200101]), (''dataTime'', [PyInt 0]),
        (''endStep'', [PyInt 0]), (''topLevel'', [PyInt 0])]
   \<and> dimensions single_variable = []
   \<and> shape single_variable = []"
proof -
  note s = example_variable_constructed
  note s' = single_variable_constructed
  have v: "map (index_values (significant_index example_variable)) RAW_COORDINATES_KEYS =
       [[PyInt 1], [PyInt 20200101], [PyInt 0], [PyInt 0, PyInt 6, PyInt 12], [PyInt 0]]"
    by code_simp
  have v': "map (index_values (significant_index single_variable)) RAW_COORDINATES_KEYS =
       [[PyInt 1], [PyInt 20200101], [PyInt 0], [PyInt 0], [PyInt 0]]"
    by code_simp
  from Variable_dimensions_shape [OF s] have e:
    "coordinates example_variable =
       map (\<lambda>key. (key, index_values (significant_index example_variable) key))
         RAW_COORDINATES_KEYS"
    "dimensions example_variable =
       filter (\<lambda>key. 1 < length (index_values (significant_index example_variable) key))
         RAW_COORDINATES_KEYS"
    "shape example_variable =
       map (\<lambda>key. length (index_values (significant_index example_variable) key))
         (dimensions example_variable)"
    by blast+
  from Variable_dimensions_shape [OF s'] have e':
    "coordinates single_variable =
       map (\<lambda>key. (key, index_values (significant_index single_variable) key))
         RAW_COORDINATES_KEYS"
    "dimensions single_variable =
       filter (\<lambda>key. 1 < length (index_values (significant_index single_variable) key))
         RAW_COORDINATES_KEYS"
    "shape single_variable =
       map (\<lambda>key. length (index_values (significant_index single_variable) key))
         (dimensions single_variable)"
    by blast+
  have a: "index_values (significant_index example_variable) ''endStep'' =
             [PyInt 0, PyInt 6, PyInt 12]
           \<and> index_values (significant_index example_variable) ''number'' = [PyInt 1]
           \<and> map fst (coordinates example_variable) =
               [''number'', ''dataDate'', ''dataTime'', ''endStep'', ''topLevel'']
           \<and> map_of (coordinates example_variable) ''endStep'' = Some [PyInt 0, PyInt 6, PyInt 12]
           \<and> map_of (coordinates example_variable) ''number'' = Some [PyInt 1]
           \<and> dimensions example_variable = [''endStep'']
           \<and> shape example_variable = [3]"
    using e v by (simp add: RAW_COORDINATES_KEYS_def)
  have b: "coordinates single_variable =
             [(''number'', [PyInt 1]), (''dataDate'', [PyInt 20200101]), (''dataTime'', [PyInt 0]),
              (''endStep'', [PyInt 0]), (''topLevel'', [PyInt 0])]
           \<and> dimensions single_variable = []
           \<and> shape single_variable = []"
    using e' v' by (simp add: RAW_COORDINATES_KEYS_def)
  from s s' a b show ?thesis by blast
qed

subsection \<open>The backing array\<close>

lemma build_array_fresh:
  "build_array_cache v = None \<Longrightarrow>
   build_array v =
     (Inr (np_full (shape v) NaN (dtype v),
           v\<lparr>build_array_cache := Some (np_full (shape v) NaN (dtype v))\<rparr>), [])"
  by (simp add: build_array_def cached_def build_array_method_def)

lemma build_array_stored:
  "build_array_cache v = Some a \<Longrightarrow> build_array v = (Inr (a, v), [])"
  by (simp add: build_array_def cached_def)

lemma after_build_array_fresh:
  "build_array_cache v = None \<Longrightarrow>
   after_build_array v = v\<lparr>build_array_cache := Some (np_full (shape v) NaN (dtype v))\<rparr>"
  by (simp add: after_build_array_def build_array_fresh)

lemma after_build_array_stored:
  "build_array_cache v = Some a \<Longrightarrow> after_build_array v = v"
  by (simp add: after_build_array_def build_array_stored)

lemma after_build_array_funpow:
  assumes "build_array_cache v = None"
  shows "(after_build_array ^^ n) v =
           (if n = 0 then v
            else v\<lparr>build_array_cache := Some (np_full (shape v) NaN (dtype v))\<rparr>)"
proof (induction n)
  case 0
  then show ?case by simp
next
  case (Suc n)
  show ?case
  proof (cases "n = 0")
    case True
    then show ?thesis using assms by (simp add: after_build_array_fresh)
  next
    case False
    with Suc show ?thesis by (simp add: after_build_array_stored)
  qed
qed

text \<open>
  Claim C9. For a Variable whose construction succeeded, every call of \<open>build_array\<close>,
  the first one and any call after \<open>n\<close> earlier ones, returns the same container: its
  shape is the Variable's shape and each of its elements is the not-a-number sentinel.
  The container is made by \<open>np_full\<close> from the shape alone; no message is read. After
  the first call the Variable holds the container and no longer changes.
\<close>

theorem build_array_idempotent:
  assumes "fst (Variable_new files paramId_arg stream_arg name_arg other_keywords) = Inr v"
  shows "build_array ((after_build_array ^^ n) v) =
           (Inr (np_full (shape v) NaN float32,
                 v\<lparr>build_array_cache := Some (np_full (shape v) NaN float32)\<rparr>), [])
       \<and> array_shape (np_full (shape v) NaN float32) = shape v
       \<and> array_data (np_full (shape v) NaN float32) = replicate (prod_list (shape v)) NaN"
proof -
  from Variable_new_Inr[OF assms] obtain p s n' where
    "fst (Variable_post_init files p s n') = Inr v" by blast
  from Variable_post_init_Inr[OF this]
  have fresh: "build_array_cache v = None" and dt: "dtype v = float32" by blast+
  have "build_array ((after_build_array ^^ n) v) =
           (Inr (np_full (shape v) NaN float32,
                 v\<lparr>build_array_cache := Some (np_full (shape v) NaN float32)\<rparr>), [])"
  proof (cases "n = 0")
    case True
    then show ?thesis using build_array_fresh[OF fresh] by (simp add: dt)
  next
    case False
    then show ?thesis
      by (simp add: after_build_array_funpow[OF fresh] build_array_stored dt)
  qed
  then show ?thesis by (simp add: np_full_def)
qed

theorem build_array_idempotent_witness:
  "fst (Variable_new example_files (Some (PyInt 1)) (Some (Stream ''steps.grib'' ''r'')) None [])
     = Inr example_variable
   \<and> shape example_variable = [3]
   \<and> map_sum id fst (fst (build_array example_variable)) =
       Inr \<lparr>array_shape = [3], array_dtype = float32, array_data = [NaN, NaN, NaN]\<rparr>
   \<and> map_sum id fst (fst (build_array ((after_build_array ^^ 2) example_variable))) =
       Inr \<lparr>array_shape = [3], array_dtype = float32, array_data = [NaN, NaN, NaN]\<rparr>"
proof -
  note s = example_variable_constructed
  have sh: "shape example_variable = [3]" by code_simp
  have full: "np_full [3] NaN float32 =
       \<lparr>array_shape = [3], array_dtype = float32, array_data = [NaN, NaN, NaN]\<rparr>"
    by (simp add: np_full_def numeral_3_eq_3)
  from build_array_idempotent [OF s, of 0] build_array_idempotent [OF s, of 2] s sh full
  show ?thesis by simp
qed

subsection \<open>The guard on the grouping key\<close>

lemma index_len_single:
  "index_len (stream_index files s [key]) = length (index_values (stream_index files s [key]) key)"
  by (simp add: index_len_def stream_index_def Index_def)

lemma attrs_loop_error:
  "attrs_loop idx keys acc \<noteq> Inl NotImplementedError_only_one_variable"
  by (induction keys arbitrary: acc) (auto split: option.splits list.splits)

lemma raw_coordinates_loop_error:
  "raw_coordinates_loop idx keys acc \<noteq> Inl NotImplementedError_only_one_variable"
  by (induction keys arbitrary: acc) (auto split: option.splits)

lemma sniff_variable_attrs_error:
  "sniff_variable_attrs idx keys gmap \<noteq> Inl NotImplementedError_only_one_variable"
  by (auto simp: sniff_variable_attrs_def index_grid_type_def attrs_loop_error
      split: sum.splits option.splits list.splits)

lemma sniff_raw_coordinates_error:
  "sniff_raw_coordinates idx keys gmap \<noteq> Inl NotImplementedError_only_one_variable"
  by (simp add: sniff_raw_coordinates_def raw_coordinates_loop_error)

lemma message_getitem_error:
  "message_getitem m key \<noteq> Inl NotImplementedError_only_one_variable"
  by (simp add: message_getitem_def split: option.splits)

text \<open>
  Claim C3, as stated, fails. The guard is \<^verbatim>\<open>len(self.paramId_index) > 1\<close>: it lets a
  scope with no grouping-key value at all through. Over a file without messages no
  distinct grouping-key value is present, and the construction still goes past the guard:
  the error it ends with is the \<^verbatim>\<open>StopIteration\<close> of the leader selection that follows
  the guard, not the multi-value-grouping error.
\<close>

theorem Variable_guard_passed_without_value:
  "index_values (stream_index example_files (Stream ''empty.grib'' ''r'') [''paramId'']) ''paramId''
     = []
   \<and> Variable_new example_files (Some (PyInt 1)) (Some (Stream ''empty.grib'' ''r'')) None []
     = (Inl StopIteration, [])"
  by code_simp

text \<open>
  Claim C3, amended. Variable construction raises the multi-value-grouping error exactly
  when more than one distinct grouping-key value is present in its scope; it goes past
  the guard whenever at most one is present, also when none is.
\<close>

theorem Variable_only_one_variable_guard:
  "fst (Variable_new files (Some p) (Some s) name_arg []) = Inl NotImplementedError_only_one_variable
   \<longleftrightarrow> 1 < length (index_values (stream_index files s [''paramId'']) ''paramId'')"
  unfolding Variable_new_def Variable_post_init_def
  using sniff_variable_attrs_error sniff_raw_coordinates_error message_getitem_error
  by (auto simp: Let_def index_len_single split: list.splits sum.splits prod.splits)

theorem Variable_only_one_variable_guard_witness:
  "index_values (stream_index example_files (Stream ''two.grib'' ''r'') [''paramId'']) ''paramId''
     = [PyInt 1, PyInt 2]
   \<and> fst (Variable_new example_files (Some (PyInt 1)) (Some (Stream ''two.grib'' ''r'')) None [])
     = Inl NotImplementedError_only_one_variable"
proof -
  have v: "index_values (stream_index example_files (Stream ''two.grib'' ''r'') [''paramId''])
             ''paramId'' = [PyInt 1, PyInt 2]"
    by code_simp
  from Variable_only_one_variable_guard
         [of example_files "PyInt 1" "Stream ''two.grib'' ''r''" None] v
  show ?thesis by simp
qed

section \<open>Properties of Dataset\<close>

text \<open>
  Whenever the coarse index has a grouping-key value and nothing is memoised yet,
  \<open>variables\<close> raises at the first iteration of its loop: the generated constructor of
  \<open>Variable\<close> has no parameter named \<^verbatim>\<open>dataset\<close>.
\<close>

lemma variables_raises:
  assumes "variables_cache self = None"
    and "index_values (stream_index files (dataset_stream self) [''paramId'']) ''paramId'' \<noteq> []"
  shows "variables files self = (Inl (TypeError_unexpected_keyword ''dataset''), [])"
proof -
  from assms(2) obtain v vs where
    "index_values (stream_index files (dataset_stream self) [''paramId'']) ''paramId'' = v # vs"
    by (cases "index_values (stream_index files (dataset_stream self) [''paramId'']) ''paramId''")
      auto
  then show ?thesis using assms(1)
    by (simp add: variables_def cached_def variables_method_def index_lookup_def stream_index_def
        Index_def Variable_new_def)
qed

text \<open>
  Claim C1. The claim says that for each distinct grouping-key value \<open>variables\<close>
  constructs a Variable and inserts it under its resolved name. On the dataset over
  \<^verbatim>\<open>steps.grib\<close>, whose coarse index enumerates the one value 1, the code constructs
  nothing: the call \<^verbatim>\<open>Variable(paramId=param_id, dataset=self)\<close> raises \<^verbatim>\<open>TypeError\<close>, and
  \<open>variables\<close> returns no mapping.
\<close>

theorem variables_raises_TypeError:
  "index_lookup
      (stream_index example_files (dataset_stream (Dataset ''steps.grib'' ''r'')) [''paramId''])
      ''paramId'' = Some [PyInt 1]
   \<and> variables example_files (Dataset ''steps.grib'' ''r'') =
       (Inl (TypeError_unexpected_keyword ''dataset''), [])"
  by code_simp

end
